theory Spec2Isabelle
  imports Complex_Main
begin

section \<open>Numbers of the program\<close>

text \<open>
  The program computes with IEEE double precision numbers: Python \<^verbatim>\<open>float\<close> for the
  sidebar parameters, \<^verbatim>\<open>numpy.float64\<close> for the cells of a table and for the fitted
  coefficient. The model keeps every special value of that format (both zeros, both
  infinities, NaN) and the rules by which the operations produce them. The arithmetic of
  finite values is exact: rounding, overflow and underflow of a finite result are not
  modelled. \<open>Num 0\<close> is the positive zero.
\<close>

datatype float64 = Num real | NegZero | PosInf | NegInf | NaN

fun is_nan :: "float64 \<Rightarrow> bool" where
  "is_nan NaN = True"
| "is_nan _ = False"

fun is_inf :: "float64 \<Rightarrow> bool" where
  "is_inf PosInf = True"
| "is_inf NegInf = True"
| "is_inf _ = False"

fun is_zero :: "float64 \<Rightarrow> bool" where
  "is_zero (Num r) = (r = 0)"
| "is_zero NegZero = True"
| "is_zero _ = False"


fun signbit :: "float64 \<Rightarrow> bool" where
  "signbit (Num r) = (r < 0)"
| "signbit NegZero = True"
| "signbit PosInf = False"
| "signbit NegInf = True"
| "signbit NaN = False"

fun value_of :: "float64 \<Rightarrow> real" where
  "value_of (Num r) = r"
| "value_of _ = 0"

definition zero_signed :: "bool \<Rightarrow> float64" where
  "zero_signed s = (if s then NegZero else Num 0)"

definition inf_signed :: "bool \<Rightarrow> float64" where
  "inf_signed s = (if s then NegInf else PosInf)"

definition finite_signed :: "bool \<Rightarrow> real \<Rightarrow> float64" where
  "finite_signed s r = (if r = 0 then zero_signed s else Num r)"

text \<open>Multiplication: \<open>inf * 0\<close> is NaN, the sign of the result is the exclusive or of the signs.\<close>

definition fl_mul :: "float64 \<Rightarrow> float64 \<Rightarrow> float64" where
  "fl_mul a b =
     (if is_nan a \<or> is_nan b then NaN
      else if (is_inf a \<and> is_zero b) \<or> (is_zero a \<and> is_inf b) then NaN
      else if is_inf a \<or> is_inf b then inf_signed (signbit a \<noteq> signbit b)
      else finite_signed (signbit a \<noteq> signbit b) (value_of a * value_of b))"

text \<open>
  Division as numpy does it: \<open>0 / 0\<close> and \<open>inf / inf\<close> are NaN, a non-zero number divided
  by a zero is an infinity (with a RuntimeWarning, no exception).
\<close>

definition fl_div :: "float64 \<Rightarrow> float64 \<Rightarrow> float64" where
  "fl_div a b =
     (if is_nan a \<or> is_nan b then NaN
      else if (is_inf a \<and> is_inf b) \<or> (is_zero a \<and> is_zero b) then NaN
      else if is_inf a \<or> is_zero b then inf_signed (signbit a \<noteq> signbit b)
      else if is_inf b then zero_signed (signbit a \<noteq> signbit b)
      else finite_signed (signbit a \<noteq> signbit b) (value_of a / value_of b))"

fun fl_neg :: "float64 \<Rightarrow> float64" where
  "fl_neg (Num r) = (if r = 0 then NegZero else Num (- r))"
| "fl_neg NegZero = Num 0"
| "fl_neg PosInf = NegInf"
| "fl_neg NegInf = PosInf"
| "fl_neg NaN = NaN"

text \<open>Addition: \<open>inf + (-inf)\<close> is NaN; an exact zero sum is negative only if both terms are.\<close>

definition fl_add :: "float64 \<Rightarrow> float64 \<Rightarrow> float64" where
  "fl_add a b =
     (if is_nan a \<or> is_nan b then NaN
      else if is_inf a \<and> is_inf b then (if a = b then a else NaN)
      else if is_inf a then a
      else if is_inf b then b
      else finite_signed (signbit a \<and> signbit b) (value_of a + value_of b))"

definition fl_sub :: "float64 \<Rightarrow> float64 \<Rightarrow> float64" where
  "fl_sub a b = fl_add a (fl_neg b)"


text \<open>The comparisons \<^verbatim>\<open><\<close>, \<^verbatim>\<open><=\<close> and \<^verbatim>\<open>==\<close>: false as soon as one side is NaN; the zeros are equal.\<close>

definition fl_lt :: "float64 \<Rightarrow> float64 \<Rightarrow> bool" where
  "fl_lt a b =
     (if is_nan a \<or> is_nan b then False
      else if a = NegInf then b \<noteq> NegInf
      else if b = PosInf then a \<noteq> PosInf
      else if a = PosInf \<or> b = NegInf then False
      else value_of a < value_of b)"





text \<open>
  Python's own \<^verbatim>\<open>float / float\<close> raises ZeroDivisionError on a zero divisor, whatever the
  dividend.
\<close>

datatype py_exception = ZeroDivisionError | IndexError | TypeError


section \<open>Data preprocessing: \<^verbatim>\<open>processar_dados\<close>\<close>

text \<open>
  A table (pandas DataFrame) maps column names to columns. A column read from a CSV file
  is numeric (a missing cell is NaN; integer cells are taken as the numbers they are) or
  holds text. Tables are objects: a variable holds a reference, and the store maps every
  reference to the table it denotes.
\<close>

datatype column = NumCol "float64 list" | ObjCol "string list"

type_synonym dataframe = "string \<rightharpoonup> column"

type_synonym ref = nat

type_synonym store = "ref \<Rightarrow> dataframe"

text \<open>
  \<^verbatim>\<open>Series.max()\<close> skips NaN cells; on a column with no other cell it returns NaN.
\<close>

definition pd_max :: "float64 list \<Rightarrow> float64" where
  "pd_max xs =
     (case filter (\<lambda>x. \<not> is_nan x) xs of
        [] \<Rightarrow> NaN
      | y # ys \<Rightarrow> fold (\<lambda>x m. if fl_lt m x then x else m) ys y)"

text \<open>
  What \<^verbatim>\<open>processar_dados\<close> shows through \<^verbatim>\<open>st.error\<close> before it returns None: the fixed
  text about the columns, or the text of the exception caught by its handler.
\<close>

datatype st_error = Mensagem string | Erro_ao_processar py_exception

definition msg_colunas :: string where
  "msg_colunas = ''O arquivo CSV deve conter colunas 'tempo' (s) e 'altura' (m)''"

text \<open>The result of the call: the reference returned, or None after a message.\<close>

datatype retorno = Retorna ref | Retorna_None st_error

text \<open>
  \<^verbatim>\<open>
  def processar_dados(df):
      try:
          if 'tempo' not in df.columns or 'altura' not in df.columns:
              st.error("O arquivo CSV deve conter colunas 'tempo' (s) e 'altura' (m)")
              return None
          if df['altura'].max() < 1:
              pass
          else:
              df['altura'] = df['altura'] / 100
          z0 = df['altura'].iloc[0]
          df['delta_z2'] = df['altura']**2 - z0**2
          return df
      except Exception as e:
          st.error(f"Erro ao processar dados: {str(e)}")
          return None
  \<close>
  On a text column with rows the comparison of its maximum with 1 raises TypeError. On a
  column without rows the maximum is NaN, the division leaves the column without rows, and
  \<^verbatim>\<open>iloc[0]\<close> raises IndexError. Both are caught by the handler. The assignments to
  \<^verbatim>\<open>df[...]\<close> change the table the caller holds.
\<close>

definition delta_z2 :: "float64 \<Rightarrow> float64 list \<Rightarrow> float64 list" where
  "delta_z2 z0 hs = map (\<lambda>h. fl_sub (fl_mul h h) (fl_mul z0 z0)) hs"

definition processar_dados :: "store \<Rightarrow> ref \<Rightarrow> store \<times> retorno" where
  "processar_dados s df =
     (if ''tempo'' \<notin> dom (s df) \<or> ''altura'' \<notin> dom (s df)
      then (s, Retorna_None (Mensagem msg_colunas))
      else
        (case s df ''altura'' of
           None \<Rightarrow> (s, Retorna_None (Mensagem msg_colunas))
         | Some (ObjCol [])  \<Rightarrow> (s, Retorna_None (Erro_ao_processar IndexError))
         | Some (ObjCol (c # cs)) \<Rightarrow> (s, Retorna_None (Erro_ao_processar TypeError))
         | Some (NumCol hs) \<Rightarrow>
             (let s1 = (if fl_lt (pd_max hs) (Num 1) then s
                        else s(df := (s df)(''altura'' \<mapsto> NumCol (map (\<lambda>h. fl_div h (Num 100)) hs))))
              in case s1 df ''altura'' of
                   Some (NumCol (z0 # zs)) \<Rightarrow>
                     (s1(df := (s1 df)(''delta_z2'' \<mapsto> NumCol (delta_z2 z0 (z0 # zs)))), Retorna df)
                 | _ \<Rightarrow> (s1, Retorna_None (Erro_ao_processar IndexError)))))"

section \<open>The diffusion model: \<^verbatim>\<open>modelo_diffusao\<close>\<close>












section \<open>Temperature correction: \<^verbatim>\<open>calcular_D_AB_teorico\<close>\<close>






section \<open>Comparison of the two coefficients\<close>



section \<open>Facts about the arithmetic\<close>
















text \<open>The running maximum is below a bound exactly when every cell it has seen is.\<close>

lemma fl_lt_max:
  assumes "\<not> is_nan m" "\<not> is_nan x" "\<not> is_nan c"
  shows "fl_lt (if fl_lt m x then x else m) c \<longleftrightarrow> fl_lt m c \<and> fl_lt x c"
  using assms by (cases m; cases x; cases c) (auto simp: fl_lt_def)

lemma fl_lt_fold_max:
  assumes "\<not> is_nan c" "\<not> is_nan y" "\<forall>x\<in>set ys. \<not> is_nan x"
  shows "fl_lt (fold (\<lambda>x m. if fl_lt m x then x else m) ys y) c
           \<longleftrightarrow> fl_lt y c \<and> (\<forall>x\<in>set ys. fl_lt x c)"
  using assms
proof (induction ys arbitrary: y)
  case Nil
  then show ?case by simp
next
  case (Cons a ys)
  have n: "\<not> is_nan (if fl_lt y a then a else y)"
    using Cons.prems by auto
  have "fl_lt (fold (\<lambda>x m. if fl_lt m x then x else m) ys (if fl_lt y a then a else y)) c
        \<longleftrightarrow> fl_lt (if fl_lt y a then a else y) c \<and> (\<forall>x\<in>set ys. fl_lt x c)"
    using Cons.IH [OF Cons.prems(1) n] Cons.prems(3) by simp
  also have "fl_lt (if fl_lt y a then a else y) c \<longleftrightarrow> fl_lt y c \<and> fl_lt a c"
    using fl_lt_max [of y a c] Cons.prems by simp
  finally show ?case by auto
qed

lemma pd_max_lt:
  assumes "\<not> is_nan c"
  shows "fl_lt (pd_max hs) c
           \<longleftrightarrow> (\<exists>h\<in>set hs. \<not> is_nan h) \<and> (\<forall>h\<in>set hs. \<not> is_nan h \<longrightarrow> fl_lt h c)"
proof (cases "filter (\<lambda>x. \<not> is_nan x) hs")
  case Nil
  then have "\<forall>h\<in>set hs. is_nan h"
    by (simp add: filter_empty_conv)
  then show ?thesis
    using Nil by (auto simp: pd_max_def fl_lt_def)
next
  case (Cons y ys)
  have set_eq: "set (y # ys) = {h \<in> set hs. \<not> is_nan h}"
    using Cons [symmetric] by simp
  then have y: "\<not> is_nan y" and ys: "\<forall>x\<in>set ys. \<not> is_nan x"
    by auto
  have "fl_lt (pd_max hs) c \<longleftrightarrow> (\<forall>x\<in>set (y # ys). fl_lt x c)"
    using fl_lt_fold_max [OF assms y ys] Cons by (simp add: pd_max_def)
  also have "\<dots> \<longleftrightarrow> (\<forall>h\<in>set hs. \<not> is_nan h \<longrightarrow> fl_lt h c)"
    unfolding set_eq by auto
  finally show ?thesis
    using set_eq by auto
qed

section \<open>Properties of \<^verbatim>\<open>processar_dados\<close>\<close>

text \<open>The call on a table with both columns and at least one numeric height.\<close>

lemma processar_dados_NumCol:
  assumes "''tempo'' \<in> dom (s df)" "s df ''altura'' = Some (NumCol (h # hs))"
  shows "processar_dados s df =
     (let zs = (if fl_lt (pd_max (h # hs)) (Num 1) then h # hs
                else map (\<lambda>x. fl_div x (Num 100)) (h # hs))
      in (s(df := (s df)(''altura'' \<mapsto> NumCol zs, ''delta_z2'' \<mapsto> NumCol (delta_z2 (hd zs) zs))),
          Retorna df))"
proof -
  have a: "''altura'' \<in> dom (s df)"
    using assms(2) by auto
  have idem: "(s df)(''altura'' \<mapsto> NumCol (h # hs)) = s df"
    using assms(2) by (simp add: map_upd_triv)
  show ?thesis
    using assms(1) a assms(2) idem
    by (simp add: processar_dados_def Let_def)
qed

text \<open>The call on a table whose numeric height column has no row.\<close>

lemma processar_dados_NumCol_Nil:
  assumes "''tempo'' \<in> dom (s df)" "s df ''altura'' = Some (NumCol [])"
  shows "processar_dados s df = (s, Retorna_None (Erro_ao_processar IndexError))"
proof -
  have a: "''altura'' \<in> dom (s df)"
    using assms(2) by auto
  have p: "pd_max [] = NaN"
    by (simp add: pd_max_def)
  have idem: "(s df)(''altura'' \<mapsto> NumCol []) = s df"
    using assms(2) by (simp add: map_upd_triv)
  show ?thesis
    using assms(1) a assms(2) idem
    by (simp add: processar_dados_def Let_def p fl_lt_def)
qed

text \<open>
  Claim C8. On a table that lacks the column \<^verbatim>\<open>tempo\<close> or the column \<^verbatim>\<open>altura\<close> the call
  shows the message about the required columns and returns None; the store is the one it
  was given, so nothing was computed on the data and no series exists.
\<close>

theorem processar_dados_colunas_ausentes:
  assumes "''tempo'' \<notin> dom (s df) \<or> ''altura'' \<notin> dom (s df)"
  shows "processar_dados s df = (s, Retorna_None (Mensagem msg_colunas))"
  using assms by (simp add: processar_dados_def)

theorem processar_dados_colunas_ausentes_witness:
  "''altura'' \<notin> dom [''tempo'' \<mapsto> NumCol [Num 0, Num 60]]
   \<and> processar_dados (\<lambda>r. [''tempo'' \<mapsto> NumCol [Num 0, Num 60]]) 0
       = (\<lambda>r. [''tempo'' \<mapsto> NumCol [Num 0, Num 60]],
          Retorna_None (Mensagem ''O arquivo CSV deve conter colunas 'tempo' (s) e 'altura' (m)''))"
  using processar_dados_colunas_ausentes [of "\<lambda>r. [''tempo'' \<mapsto> NumCol [Num 0, Num 60]]" 0]
  by (simp add: msg_colunas_def)

text \<open>
  Claim C3. On a table with both columns and a numeric height column, the heights the
  call leaves in the table are the uploaded ones when their maximum is strictly below 1,
  and the uploaded ones divided by 100 otherwise; nothing else is done to them. The
  maximum is below 1 exactly when some cell is a number and every cell that is a number
  is below 1.
\<close>

theorem processar_dados_unidade:
  assumes "''tempo'' \<in> dom (s df)" "s df ''altura'' = Some (NumCol hs)"
  shows "fst (processar_dados s df) df ''altura'' =
           Some (NumCol (if fl_lt (pd_max hs) (Num 1) then hs
                         else map (\<lambda>h. fl_div h (Num 100)) hs))
         \<and> (fl_lt (pd_max hs) (Num 1) \<longleftrightarrow>
              (\<exists>h\<in>set hs. \<not> is_nan h) \<and> (\<forall>h\<in>set hs. \<not> is_nan h \<longrightarrow> fl_lt h (Num 1)))"
proof (rule conjI)
  show "fst (processar_dados s df) df ''altura'' =
           Some (NumCol (if fl_lt (pd_max hs) (Num 1) then hs
                         else map (\<lambda>h. fl_div h (Num 100)) hs))"
  proof (cases hs)
    case Nil
    then show ?thesis
      using assms processar_dados_NumCol_Nil [of s df] by simp
  next
    case (Cons x xs)
    then show ?thesis
      using assms processar_dados_NumCol [of s df x xs] by (simp add: Let_def)
  qed
  show "fl_lt (pd_max hs) (Num 1) \<longleftrightarrow>
          (\<exists>h\<in>set hs. \<not> is_nan h) \<and> (\<forall>h\<in>set hs. \<not> is_nan h \<longrightarrow> fl_lt h (Num 1))"
    by (rule pd_max_lt) simp
qed

text \<open>Heights 1, 2, 3 are taken for centimetres; heights 0.01, 0.02, 0.03 are left alone.\<close>

theorem processar_dados_unidade_witness:
  "''tempo'' \<in> dom [''tempo'' \<mapsto> NumCol [Num 0, Num 60, Num 120],
                     ''altura'' \<mapsto> NumCol [Num 1, Num 2, Num 3]]
   \<and> fst (processar_dados (\<lambda>r. [''tempo'' \<mapsto> NumCol [Num 0, Num 60, Num 120],
                                   ''altura'' \<mapsto> NumCol [Num 1, Num 2, Num 3]]) 0) 0 ''altura''
       = Some (NumCol [Num (1/100), Num (2/100), Num (3/100)])
   \<and> ''tempo'' \<in> dom [''tempo'' \<mapsto> NumCol [Num 0, Num 60, Num 120],
                       ''altura'' \<mapsto> NumCol [Num (1/100), Num (2/100), Num (3/100)]]
   \<and> fst (processar_dados (\<lambda>r. [''tempo'' \<mapsto> NumCol [Num 0, Num 60, Num 120],
                                   ''altura'' \<mapsto> NumCol [Num (1/100), Num (2/100), Num (3/100)]]) 0) 0 ''altura''
       = Some (NumCol [Num (1/100), Num (2/100), Num (3/100)])"
  using processar_dados_unidade [of "\<lambda>r. [''tempo'' \<mapsto> NumCol [Num 0, Num 60, Num 120],
                                   ''altura'' \<mapsto> NumCol [Num 1, Num 2, Num 3]]" 0 "[Num 1, Num 2, Num 3]"]
    processar_dados_unidade [of "\<lambda>r. [''tempo'' \<mapsto> NumCol [Num 0, Num 60, Num 120],
                                   ''altura'' \<mapsto> NumCol [Num (1/100), Num (2/100), Num (3/100)]]" 0
                                "[Num (1/100), Num (2/100), Num (3/100)]"]
  by (simp add: pd_max_def fl_lt_def fl_div_def finite_signed_def)



text \<open>
  Claim C10. The call works on the caller's table: it returns the reference it was
  given, no other table of the store changes, and the table behind that reference has
  the column \<^verbatim>\<open>delta_z2\<close> afterwards and, when the maximum height is not below 1, the
  heights divided by 100 in place of the uploaded ones. The other columns are untouched.
  An uploaded table without a column \<^verbatim>\<open>delta_z2\<close> is therefore not what the store holds
  after the call.
\<close>

theorem processar_dados_in_place:
  assumes "''tempo'' \<in> dom (s df)" "s df ''altura'' = Some (NumCol (h # hs))"
  shows "snd (processar_dados s df) = Retorna df
         \<and> (\<forall>r. r \<noteq> df \<longrightarrow> fst (processar_dados s df) r = s r)
         \<and> (\<not> fl_lt (pd_max (h # hs)) (Num 1) \<longrightarrow>
              fst (processar_dados s df) df ''altura''
                = Some (NumCol (map (\<lambda>x. fl_div x (Num 100)) (h # hs))))
         \<and> ''delta_z2'' \<in> dom (fst (processar_dados s df) df)
         \<and> (\<forall>k. k \<noteq> ''altura'' \<and> k \<noteq> ''delta_z2'' \<longrightarrow> fst (processar_dados s df) df k = s df k)
         \<and> (''delta_z2'' \<notin> dom (s df) \<longrightarrow> fst (processar_dados s df) df \<noteq> s df)"
proof -
  define zs where "zs = (if fl_lt (pd_max (h # hs)) (Num 1) then h # hs
                         else map (\<lambda>x. fl_div x (Num 100)) (h # hs))"
  define dz where "dz = delta_z2 (hd zs) zs"
  have pd: "processar_dados s df =
      (s(df := (s df)(''altura'' \<mapsto> NumCol zs, ''delta_z2'' \<mapsto> NumCol dz)), Retorna df)"
    using processar_dados_NumCol [of s df h hs] assms by (simp add: Let_def zs_def dz_def)
  have neq: "(s df)(''altura'' \<mapsto> NumCol zs, ''delta_z2'' \<mapsto> NumCol dz) \<noteq> s df"
    if a: "''delta_z2'' \<notin> dom (s df)"
  proof
    assume e: "(s df)(''altura'' \<mapsto> NumCol zs, ''delta_z2'' \<mapsto> NumCol dz) = s df"
    have "((s df)(''altura'' \<mapsto> NumCol zs, ''delta_z2'' \<mapsto> NumCol dz)) ''delta_z2'' = Some (NumCol dz)"
      by simp
    then have "s df ''delta_z2'' = Some (NumCol dz)"
      using e by simp
    then show False
      using a by auto
  qed
  show ?thesis
    using neq by (simp add: pd zs_def)
qed

theorem processar_dados_in_place_witness:
  "''tempo'' \<in> dom [''tempo'' \<mapsto> NumCol [Num 0, Num 60], ''altura'' \<mapsto> NumCol [Num 5, Num 6]]
   \<and> ''delta_z2'' \<notin> dom [''tempo'' \<mapsto> NumCol [Num 0, Num 60], ''altura'' \<mapsto> NumCol [Num 5, Num 6]]
   \<and> \<not> fl_lt (pd_max [Num 5, Num 6]) (Num 1)
   \<and> snd (processar_dados (\<lambda>r. [''tempo'' \<mapsto> NumCol [Num 0, Num 60], ''altura'' \<mapsto> NumCol [Num 5, Num 6]]) 0) = Retorna 0
   \<and> fst (processar_dados (\<lambda>r. [''tempo'' \<mapsto> NumCol [Num 0, Num 60], ''altura'' \<mapsto> NumCol [Num 5, Num 6]]) 0) 1 = (\<lambda>r. [''tempo'' \<mapsto> NumCol [Num 0, Num 60], ''altura'' \<mapsto> NumCol [Num 5, Num 6]]) 1
   \<and> fst (processar_dados (\<lambda>r. [''tempo'' \<mapsto> NumCol [Num 0, Num 60], ''altura'' \<mapsto> NumCol [Num 5, Num 6]]) 0) 0 ''altura'' = Some (NumCol [Num (5/100), Num (6/100)])
   \<and> ''delta_z2'' \<in> dom (fst (processar_dados (\<lambda>r. [''tempo'' \<mapsto> NumCol [Num 0, Num 60], ''altura'' \<mapsto> NumCol [Num 5, Num 6]]) 0) 0)
   \<and> fst (processar_dados (\<lambda>r. [''tempo'' \<mapsto> NumCol [Num 0, Num 60], ''altura'' \<mapsto> NumCol [Num 5, Num 6]]) 0) 0 ''tempo'' = Some (NumCol [Num 0, Num 60])
   \<and> fst (processar_dados (\<lambda>r. [''tempo'' \<mapsto> NumCol [Num 0, Num 60], ''altura'' \<mapsto> NumCol [Num 5, Num 6]]) 0) 0 \<noteq> (\<lambda>r. [''tempo'' \<mapsto> NumCol [Num 0, Num 60], ''altura'' \<mapsto> NumCol [Num 5, Num 6]]) 0"
  using processar_dados_in_place [of "(\<lambda>r. [''tempo'' \<mapsto> NumCol [Num 0, Num 60], ''altura'' \<mapsto> NumCol [Num 5, Num 6]])" 0 "Num 5" "[Num 6]"]
  by (simp add: pd_max_def fl_lt_def fl_div_def finite_signed_def)

section \<open>Properties of \<^verbatim>\<open>modelo_diffusao\<close>\<close>














section \<open>Properties of \<^verbatim>\<open>calcular_D_AB_teorico\<close>\<close>



section \<open>Properties of the comparison\<close>







end
